theory Spec2Isabelle
  imports Main
begin

section \<open>JavaScript values used by the watchlist\<close>

text \<open>
  A JavaScript \<^verbatim>\<open>number\<close> is modelled as an integer (prices and quantities in the
  range where JavaScript arithmetic is exact) or \<^verbatim>\<open>NaN\<close>, the value that
  arithmetic yields when an operand is \<^verbatim>\<open>undefined\<close>. Optional numeric
  properties (\<^verbatim>\<open>quantity?\<close>, \<^verbatim>\<open>itemTotal?\<close>) are options: \<open>None\<close> is a
  property that is absent and therefore reads as \<^verbatim>\<open>undefined\<close>.
\<close>

datatype number = Number int | NaN

text \<open>\<^verbatim>\<open>a + b\<close> and \<^verbatim>\<open>a * b\<close> on numbers.\<close>

fun num_add :: "number \<Rightarrow> number \<Rightarrow> number" where
  "num_add (Number a) (Number b) = Number (a + b)"
| "num_add _ _ = NaN"

fun num_mul :: "number \<Rightarrow> number \<Rightarrow> number" where
  "num_mul (Number a) (Number b) = Number (a * b)"
| "num_mul _ _ = NaN"

text \<open>The numeric value of an optional property inside arithmetic: \<^verbatim>\<open>undefined\<close> is \<^verbatim>\<open>NaN\<close>.\<close>

fun to_number :: "number option \<Rightarrow> number" where
  "to_number None = NaN"
| "to_number (Some n) = n"

text \<open>Falsiness of a number (\<^verbatim>\<open>0\<close> and \<^verbatim>\<open>NaN\<close>) and the test \<^verbatim>\<open>q <= 0\<close>.\<close>

fun num_falsy :: "number \<Rightarrow> bool" where
  "num_falsy (Number n) = (n = 0)"
| "num_falsy NaN = True"

fun num_le_zero :: "number \<Rightarrow> bool" where
  "num_le_zero (Number n) = (n \<le> 0)"
| "num_le_zero NaN = False"

text \<open>Values of type \<^verbatim>\<open>any\<close>: the code stores and copies them and never looks inside.\<close>

datatype any = AnyString string | AnyNumber int | AnyBool bool | AnyNull

type_synonym fields = "string \<rightharpoonup> any"

section \<open>Data model\<close>

text \<open>
  \<^verbatim>\<open>interface Item { id: string; price: number; quantity?: number; itemTotal?: number;
  [key: string]: any }\<close>. The index signature is the map \<open>extra\<close>.
\<close>

record item =
  item_id :: string
  price :: number
  quantity :: "number option"
  itemTotal :: "number option"
  extra :: fields

text \<open>
  The \<^verbatim>\<open>payload: object\<close> of \<^verbatim>\<open>UPDATE_ITEM\<close>: any subset of an item's
  properties. \<open>None\<close> is a key the payload does not carry. (A key carried with the value
  \<^verbatim>\<open>undefined\<close> is not modelled; the payloads built by the provider never have one for
  \<^verbatim>\<open>id\<close>, \<^verbatim>\<open>price\<close> or \<^verbatim>\<open>quantity\<close>.)
\<close>

record payload =
  p_id :: "string option"
  p_price :: "number option"
  p_quantity :: "number option"
  p_itemTotal :: "number option"
  p_extra :: fields

type_synonym metadata_t = fields

text \<open>
  \<^verbatim>\<open>interface InitialState\<close>. The keys \<^verbatim>\<open>id\<close> and \<^verbatim>\<open>metadata\<close> can be absent from
  the object (\<^verbatim>\<open>initialState\<close> has no \<^verbatim>\<open>id\<close>; a parsed saved watchlist has no
  \<^verbatim>\<open>metadata\<close> when none was supplied), hence the options.
\<close>

record watchlist_state =
  state_id :: "string option"
  items :: "item list"
  isEmpty :: bool
  totalItems :: number
  totalUniqueItems :: number
  metadata :: "metadata_t option"

datatype action =
    SET_ITEMS "item list"
  | ADD_ITEM item
  | REMOVE_ITEM string
  | UPDATE_ITEM string payload
  | EMPTY_WATCHLIST
  | CLEAR_WATCHLIST_META
  | SET_WATCHLIST_META metadata_t
  | UPDATE_WATCHLIST_META metadata_t

definition initialState :: watchlist_state where
  "initialState =
     \<lparr> state_id = None, items = [], isEmpty = True, totalItems = Number 0,
       totalUniqueItems = Number 0, metadata = Some Map.empty \<rparr>"

section \<open>Aggregate calculator\<close>

definition calculateItemTotals :: "item list \<Rightarrow> item list" where
  "calculateItemTotals its =
     map (\<lambda>item. item\<lparr> itemTotal := Some (num_mul (price item) (to_number (quantity item))) \<rparr>) its"

definition calculateTotalItems :: "item list \<Rightarrow> number" where
  "calculateTotalItems its =
     foldl (\<lambda>sum item. num_add sum (to_number (quantity item))) (Number 0) its"

definition calculateUniqueItems :: "item list \<Rightarrow> number" where
  "calculateUniqueItems its = Number (int (length its))"

text \<open>
  \<^verbatim>\<open>{...initialState, ...state}\<close>: every key of \<open>state\<close> wins; a key that \<open>state\<close> lacks
  keeps the value of \<^verbatim>\<open>initialState\<close> (which has no \<^verbatim>\<open>id\<close>).
\<close>

definition spread_state :: "watchlist_state \<Rightarrow> watchlist_state \<Rightarrow> watchlist_state" where
  "spread_state base st =
     st\<lparr> state_id := (case state_id st of None \<Rightarrow> state_id base | Some i \<Rightarrow> Some i),
         metadata := (case metadata st of None \<Rightarrow> metadata base | Some m \<Rightarrow> Some m) \<rparr>"

definition generateWatchlistState :: "watchlist_state \<Rightarrow> item list \<Rightarrow> watchlist_state" where
  "generateWatchlistState st its =
     (let totalUnique = calculateUniqueItems its;
          empty = (totalUnique = Number 0)
      in (spread_state initialState st)
           \<lparr> items := calculateItemTotals its,
             totalItems := calculateTotalItems its,
             totalUniqueItems := totalUnique,
             isEmpty := empty \<rparr>)"

section \<open>Reducer\<close>

text \<open>\<^verbatim>\<open>{...item, ...action.payload}\<close>: the payload's keys win, the others stay.\<close>

definition spread_item :: "item \<Rightarrow> payload \<Rightarrow> item" where
  "spread_item it p =
     \<lparr> item_id = (case p_id p of None \<Rightarrow> item_id it | Some i \<Rightarrow> i),
       price = (case p_price p of None \<Rightarrow> price it | Some v \<Rightarrow> v),
       quantity = (case p_quantity p of None \<Rightarrow> quantity it | Some q \<Rightarrow> Some q),
       itemTotal = (case p_itemTotal p of None \<Rightarrow> itemTotal it | Some t \<Rightarrow> Some t),
       extra = extra it ++ p_extra p \<rparr>"

text \<open>
  The \<^verbatim>\<open>default\<close> branch (\<^verbatim>\<open>throw new Error("No action specified")\<close>) has no
  counterpart: the type \<^verbatim>\<open>Actions\<close> has exactly the eight tags below.
\<close>

fun reducer :: "watchlist_state \<Rightarrow> action \<Rightarrow> watchlist_state" where
  "reducer st (SET_ITEMS its) = generateWatchlistState st its"
| "reducer st (ADD_ITEM it) = generateWatchlistState st (items st @ [it])"
| "reducer st (UPDATE_ITEM i p) =
     generateWatchlistState st
       (map (\<lambda>item. if item_id item \<noteq> i then item else spread_item item p) (items st))"
| "reducer st (REMOVE_ITEM i) =
     generateWatchlistState st (filter (\<lambda>it. item_id it \<noteq> i) (items st))"
| "reducer st EMPTY_WATCHLIST = initialState"
| "reducer st CLEAR_WATCHLIST_META = st\<lparr> metadata := Some Map.empty \<rparr>"
| "reducer st (SET_WATCHLIST_META m) = st\<lparr> metadata := Some m \<rparr>"
| "reducer st (UPDATE_WATCHLIST_META m) =
     st\<lparr> metadata := Some ((case metadata st of None \<Rightarrow> Map.empty | Some m0 \<Rightarrow> m0) ++ m) \<rparr>"

section \<open>Provider: the operations offered to callers\<close>

text \<open>
  Which of the optional callbacks the caller supplied
  (\<^verbatim>\<open>onItemRemove && onItemRemove(id)\<close> calls only a supplied one). Callbacks are
  observers: they return normally and do not call back into the watchlist.
\<close>

record callbacks =
  onSetItems :: bool
  onItemAdd :: bool
  onItemUpdate :: bool
  onItemRemove :: bool

datatype error = MissingIdentifier | NotFound

text \<open>What an operation did, in program order: reducer dispatches and callback calls.\<close>

datatype event =
    Dispatched action
  | OnSetItems "item list"
  | OnItemAdd item
  | OnItemUpdate payload
  | OnItemRemove string

text \<open>
  The result of one call: the provider's state afterwards, the events of the call and
  the error it threw, if any.
\<close>

record outcome =
  new_state :: watchlist_state
  fired :: "event list"
  raised :: "error option"

definition start :: "watchlist_state \<Rightarrow> outcome" where
  "start st = \<lparr> new_state = st, fired = [], raised = None \<rparr>"

definition dispatch :: "action \<Rightarrow> outcome \<Rightarrow> outcome" where
  "dispatch a oc =
     oc\<lparr> new_state := reducer (new_state oc) a, fired := fired oc @ [Dispatched a] \<rparr>"

definition fire :: "bool \<Rightarrow> event \<Rightarrow> outcome \<Rightarrow> outcome" where
  "fire supplied e oc = (if supplied then oc\<lparr> fired := fired oc @ [e] \<rparr> else oc)"

definition throw :: "error \<Rightarrow> outcome \<Rightarrow> outcome" where
  "throw e oc = oc\<lparr> raised := Some e \<rparr>"

text \<open>
  The state the provider starts from when the storage holds nothing for its key:
  \<^verbatim>\<open>JSON.parse(JSON.stringify({ id, ...initialState, items: defaultItems, metadata }))\<close>.
  The items are stored as given and the aggregates are those of \<^verbatim>\<open>initialState\<close>; an
  unsupplied \<^verbatim>\<open>metadata\<close> is \<^verbatim>\<open>undefined\<close> and the key is dropped by
  \<^verbatim>\<open>JSON.stringify\<close>.
\<close>

definition defaultWatchlist :: "string \<Rightarrow> item list \<Rightarrow> metadata_t option \<Rightarrow> watchlist_state" where
  "defaultWatchlist i defaultItems md =
     initialState\<lparr> state_id := Some i, items := defaultItems, metadata := md \<rparr>"

text \<open>\<^verbatim>\<open>item.quantity || 1\<close>\<close>

definition quantity_or_one :: "number option \<Rightarrow> number" where
  "quantity_or_one q =
     (case q of None \<Rightarrow> Number 1 | Some n \<Rightarrow> if num_falsy n then Number 1 else n)"

definition setItems :: "callbacks \<Rightarrow> item list \<Rightarrow> watchlist_state \<Rightarrow> outcome" where
  "setItems cb its st =
     fire (onSetItems cb) (OnSetItems its)
       (dispatch
          (SET_ITEMS (map (\<lambda>item. item\<lparr> quantity := Some (quantity_or_one (quantity item)) \<rparr>) its))
          (start st))"

text \<open>\<^verbatim>\<open>{ ...item }\<close> seen as an \<^verbatim>\<open>UPDATE_ITEM\<close> payload.\<close>

definition payload_of :: "item \<Rightarrow> payload" where
  "payload_of it =
     \<lparr> p_id = Some (item_id it), p_price = Some (price it), p_quantity = quantity it,
       p_itemTotal = itemTotal it, p_extra = extra it \<rparr>"

text \<open>
  The default parameter of \<^verbatim>\<open>addItem(item, quantity = 1)\<close>: the argument is \<open>None\<close>
  when the caller leaves it out.
\<close>

definition default_quantity :: "number option \<Rightarrow> number" where
  "default_quantity qarg = (case qarg of None \<Rightarrow> Number 1 | Some n \<Rightarrow> n)"

text \<open>
  \<^verbatim>\<open>addItem\<close> and \<^verbatim>\<open>updateItemQuantity\<close> read \<^verbatim>\<open>state.items\<close>, and that
  \<^verbatim>\<open>state\<close> is the one of the render that created the function, while
  \<^verbatim>\<open>dispatch\<close> reduces the state React holds at that moment. The two differ when an
  earlier call of the same render has dispatched already. So a call takes both: \<open>rendered\<close>
  is the state its closure sees, and the outcome so far carries the state that the
  dispatch reduces.

  An \<^verbatim>\<open>id\<close> of type string is falsy exactly when it is empty.
\<close>

definition addItem_call ::
  "callbacks \<Rightarrow> watchlist_state \<Rightarrow> item \<Rightarrow> number option \<Rightarrow> outcome \<Rightarrow> outcome" where
  "addItem_call cb rendered it qarg oc =
     (let q = default_quantity qarg in
      if item_id it = [] then throw MissingIdentifier oc
      else
        (case find (\<lambda>i. item_id i = item_id it) (items rendered) of
           None \<Rightarrow>
             (let pl = it\<lparr> quantity := Some q \<rparr>
              in fire (onItemAdd cb) (OnItemAdd pl) (dispatch (ADD_ITEM pl) oc))
         | Some currentItem \<Rightarrow>
             (let pl = (payload_of it)
                         \<lparr> p_quantity := Some (num_add (to_number (quantity currentItem)) q) \<rparr>
              in fire (onItemUpdate cb) (OnItemUpdate pl)
                   (dispatch (UPDATE_ITEM (item_id it) pl) oc))))"

text \<open>
  One call on a provider that has rendered with the state \<open>st\<close> and has nothing pending:
  the closure sees the state that the dispatch reduces.
\<close>

definition addItem :: "callbacks \<Rightarrow> item \<Rightarrow> number option \<Rightarrow> watchlist_state \<Rightarrow> outcome" where
  "addItem cb it qarg st = addItem_call cb st it qarg (start st)"


definition updateItemQuantity_call ::
  "callbacks \<Rightarrow> watchlist_state \<Rightarrow> string \<Rightarrow> number \<Rightarrow> outcome \<Rightarrow> outcome" where
  "updateItemQuantity_call cb rendered i q oc =
     (if num_le_zero q then
        dispatch (REMOVE_ITEM i) (fire (onItemRemove cb) (OnItemRemove i) oc)
      else
        (case find (\<lambda>item. item_id item = i) (items rendered) of
           None \<Rightarrow> throw NotFound oc
         | Some currentItem \<Rightarrow>
             (let pl = (payload_of currentItem)\<lparr> p_quantity := Some q \<rparr>
              in fire (onItemUpdate cb) (OnItemUpdate pl) (dispatch (UPDATE_ITEM i pl) oc))))"

definition updateItemQuantity :: "callbacks \<Rightarrow> string \<Rightarrow> number \<Rightarrow> watchlist_state \<Rightarrow> outcome" where
  "updateItemQuantity cb i q st = updateItemQuantity_call cb st i q (start st)"

definition removeItem :: "callbacks \<Rightarrow> string \<Rightarrow> watchlist_state \<Rightarrow> outcome" where
  "removeItem cb i st =
     (if i = [] then start st
      else fire (onItemRemove cb) (OnItemRemove i) (dispatch (REMOVE_ITEM i) (start st)))"

definition emptyWatchlist :: "watchlist_state \<Rightarrow> outcome" where
  "emptyWatchlist st = dispatch EMPTY_WATCHLIST (start st)"






section \<open>Properties the claims speak about\<close>

text \<open>The sum of the quantities of a sequence of items, as a sum from the right.\<close>

fun sum_quantities :: "item list \<Rightarrow> number" where
  "sum_quantities [] = Number 0"
| "sum_quantities (it # its) = num_add (to_number (quantity it)) (sum_quantities its)"

text \<open>The derived fields of a state agree with its items.\<close>

definition consistent :: "watchlist_state \<Rightarrow> bool" where
  "consistent st \<longleftrightarrow>
     totalItems st = sum_quantities (items st) \<and>
     totalUniqueItems st = Number (int (length (items st))) \<and>
     isEmpty st = (totalUniqueItems st = Number 0) \<and>
     (\<forall>it \<in> set (items st).
        itemTotal it = Some (num_mul (price it) (to_number (quantity it))))"

definition ids :: "watchlist_state \<Rightarrow> string list" where
  "ids st = map item_id (items st)"

fun is_metadata_action :: "action \<Rightarrow> bool" where
  "is_metadata_action CLEAR_WATCHLIST_META = True"
| "is_metadata_action (SET_WATCHLIST_META m) = True"
| "is_metadata_action (UPDATE_WATCHLIST_META m) = True"
| "is_metadata_action _ = False"

section \<open>Example inputs\<close>

text \<open>\<^verbatim>\<open>{ id: "a", price: 1000, quantity: 1 }\<close> and \<^verbatim>\<open>{ id: "b", price: 2000, quantity: 3 }\<close>\<close>

definition item_a :: item where
  "item_a = \<lparr> item_id = ''a'', price = Number 1000, quantity = Some (Number 1),
              itemTotal = None, extra = Map.empty \<rparr>"

definition item_b :: item where
  "item_b = \<lparr> item_id = ''b'', price = Number 2000, quantity = Some (Number 3),
              itemTotal = None, extra = Map.empty \<rparr>"

text \<open>A later version of item \<open>a\<close>: another price and one more property.\<close>

definition item_a2 :: item where
  "item_a2 = \<lparr> item_id = ''a'', price = Number 1500, quantity = None,
               itemTotal = None, extra = [''note'' \<mapsto> AnyString ''sale''] \<rparr>"

text \<open>The watchlist \<open>w\<close> holding \<open>a\<close> and \<open>b\<close>, as the reducer leaves it.\<close>

definition state_ab :: watchlist_state where
  "state_ab =
     \<lparr> state_id = Some ''w'',
       items = [item_a\<lparr> itemTotal := Some (Number 1000) \<rparr>,
                item_b\<lparr> itemTotal := Some (Number 6000) \<rparr>],
       isEmpty = False, totalItems = Number 4, totalUniqueItems = Number 2,
       metadata = Some Map.empty \<rparr>"

definition all_callbacks :: callbacks where
  "all_callbacks = \<lparr> onSetItems = True, onItemAdd = True, onItemUpdate = True, onItemRemove = True \<rparr>"

definition no_callbacks :: callbacks where
  "no_callbacks = \<lparr> onSetItems = False, onItemAdd = False, onItemUpdate = False, onItemRemove = False \<rparr>"

text \<open>The payload \<^verbatim>\<open>{ id: j }\<close>.\<close>

definition only_id :: "string \<Rightarrow> payload" where
  "only_id j = \<lparr> p_id = Some j, p_price = None, p_quantity = None, p_itemTotal = None,
                 p_extra = Map.empty \<rparr>"


lemmas eval_defs = ids_def generateWatchlistState_def spread_state_def Let_def
  calculateItemTotals_def calculateTotalItems_def calculateUniqueItems_def initialState_def
  spread_item_def payload_of_def quantity_or_one_def defaultWatchlist_def
  item_a_def item_b_def item_a2_def state_ab_def all_callbacks_def no_callbacks_def
  only_id_def

section \<open>The result of one call\<close>

lemma new_state_start [simp]: "new_state (start st) = st"
  by (simp add: start_def)

lemma new_state_dispatch [simp]: "new_state (dispatch a oc) = reducer (new_state oc) a"
  by (simp add: dispatch_def)

lemma new_state_fire [simp]: "new_state (fire b e oc) = new_state oc"
  by (simp add: fire_def)

lemma new_state_throw [simp]: "new_state (throw e oc) = new_state oc"
  by (simp add: throw_def)

lemma raised_start [simp]: "raised (start st) = None"
  by (simp add: start_def)

lemma raised_dispatch [simp]: "raised (dispatch a oc) = raised oc"
  by (simp add: dispatch_def)

lemma raised_fire [simp]: "raised (fire b e oc) = raised oc"
  by (simp add: fire_def)

lemma raised_throw [simp]: "raised (throw e oc) = Some e"
  by (simp add: throw_def)

lemma fired_start [simp]: "fired (start st) = []"
  by (simp add: start_def)

lemma fired_dispatch [simp]: "fired (dispatch a oc) = fired oc @ [Dispatched a]"
  by (simp add: dispatch_def)

lemma fired_fire [simp]: "fired (fire b e oc) = (if b then fired oc @ [e] else fired oc)"
  by (simp add: fire_def)

lemma fired_throw [simp]: "fired (throw e oc) = fired oc"
  by (simp add: throw_def)

text \<open>A call on a rendered provider, written out.\<close>

lemma addItem_unfold:
  "addItem cb it qarg st =
     (let q = default_quantity qarg in
      if item_id it = [] then throw MissingIdentifier (start st)
      else
        (case find (\<lambda>i. item_id i = item_id it) (items st) of
           None \<Rightarrow>
             (let pl = it\<lparr> quantity := Some q \<rparr>
              in fire (onItemAdd cb) (OnItemAdd pl) (dispatch (ADD_ITEM pl) (start st)))
         | Some currentItem \<Rightarrow>
             (let pl = (payload_of it)
                         \<lparr> p_quantity := Some (num_add (to_number (quantity currentItem)) q) \<rparr>
              in fire (onItemUpdate cb) (OnItemUpdate pl)
                   (dispatch (UPDATE_ITEM (item_id it) pl) (start st)))))"
  by (simp add: addItem_def addItem_call_def)

lemma updateItemQuantity_unfold:
  "updateItemQuantity cb i q st =
     (if num_le_zero q then
        dispatch (REMOVE_ITEM i) (fire (onItemRemove cb) (OnItemRemove i) (start st))
      else
        (case find (\<lambda>item. item_id item = i) (items st) of
           None \<Rightarrow> throw NotFound (start st)
         | Some currentItem \<Rightarrow>
             (let pl = (payload_of currentItem)\<lparr> p_quantity := Some q \<rparr>
              in fire (onItemUpdate cb) (OnItemUpdate pl) (dispatch (UPDATE_ITEM i pl) (start st)))))"
  by (simp add: updateItemQuantity_def updateItemQuantity_call_def)

section \<open>The aggregates after a transition\<close>

lemma num_add_zero_left: "num_add (Number 0) x = x"
  by (cases x) simp_all

lemma num_add_assoc: "num_add (num_add a b) c = num_add a (num_add b c)"
  by (cases a; cases b; cases c) simp_all

text \<open>The left fold of the source computes the sum, for any starting value.\<close>

lemma foldl_quantities:
  "foldl (\<lambda>sum item. num_add sum (to_number (quantity item))) a its = num_add a (sum_quantities its)"
proof (induction its arbitrary: a)
  case Nil
  show ?case by (cases a) simp_all
next
  case (Cons it its)
  show ?case by (simp add: Cons.IH num_add_assoc)
qed

lemma calculateTotalItems_sum: "calculateTotalItems its = sum_quantities its"
  by (simp add: calculateTotalItems_def foldl_quantities num_add_zero_left)

lemma sum_quantities_totals: "sum_quantities (calculateItemTotals its) = sum_quantities its"
  by (induction its) (simp_all add: calculateItemTotals_def)

lemma items_generate: "items (generateWatchlistState st its) = calculateItemTotals its"
  by (simp add: generateWatchlistState_def Let_def)


lemma consistent_generate: "consistent (generateWatchlistState st its)"
  unfolding consistent_def
  by (simp add: generateWatchlistState_def Let_def calculateTotalItems_sum sum_quantities_totals
      calculateUniqueItems_def)
    (auto simp: calculateItemTotals_def)

lemma consistent_metadata: "consistent (st\<lparr> metadata := m \<rparr>) = consistent st"
  by (simp add: consistent_def)

lemma consistent_initial: "consistent initialState"
  by (simp add: consistent_def initialState_def)

lemma consistent_state_ab: "consistent state_ab"
  by (simp add: consistent_def state_ab_def item_a_def item_b_def)

text \<open>
  C1 (as amended). After SET_ITEMS, ADD_ITEM, UPDATE_ITEM, REMOVE_ITEM and
  EMPTY_WATCHLIST, from any state, \<open>totalItems\<close> is the sum of the quantities,
  \<open>totalUniqueItems\<close> is the number of items, \<open>isEmpty\<close> says whether that number is
  zero, and every item's \<open>itemTotal\<close> is its price times its quantity. The three
  metadata actions leave the items and the three aggregates as they were, so after them
  the same holds exactly when it held before.
\<close>

theorem reducer_consistent:
  "(\<not> is_metadata_action a \<longrightarrow> consistent (reducer st a))
   \<and> (is_metadata_action a \<longrightarrow>
        items (reducer st a) = items st
        \<and> totalItems (reducer st a) = totalItems st
        \<and> totalUniqueItems (reducer st a) = totalUniqueItems st
        \<and> isEmpty (reducer st a) = isEmpty st
        \<and> consistent (reducer st a) = consistent st)"
  by (cases a) (simp_all add: consistent_generate consistent_metadata consistent_initial)

text \<open>
  C1 at CLEAR_WATCHLIST_META on the watchlist holding \<open>a\<close> and \<open>b\<close>, and at ADD_ITEM
  on the state a provider starts from with \<^verbatim>\<open>defaultItems = [{ id: "a", price: 1000,
  quantity: 1 }]\<close>, whose aggregates are those of the empty watchlist.
\<close>

theorem reducer_consistent_witness:
  "is_metadata_action CLEAR_WATCHLIST_META
   \<and> consistent state_ab
   \<and> items (reducer state_ab CLEAR_WATCHLIST_META) = items state_ab
   \<and> totalItems (reducer state_ab CLEAR_WATCHLIST_META) = Number 4
   \<and> totalUniqueItems (reducer state_ab CLEAR_WATCHLIST_META) = Number 2
   \<and> isEmpty (reducer state_ab CLEAR_WATCHLIST_META) = False
   \<and> consistent (reducer state_ab CLEAR_WATCHLIST_META)
   \<and> \<not> is_metadata_action (ADD_ITEM item_b)
   \<and> \<not> consistent (defaultWatchlist ''w'' [item_a] None)
   \<and> consistent (reducer (defaultWatchlist ''w'' [item_a] None) (ADD_ITEM item_b))"
proof -
  have m: "is_metadata_action CLEAR_WATCHLIST_META" by simp
  have n: "\<not> is_metadata_action (ADD_ITEM item_b)" by simp
  have f: "totalItems state_ab = Number 4" "totalUniqueItems state_ab = Number 2"
    "isEmpty state_ab = False"
    by (simp_all add: state_ab_def)
  have d: "\<not> consistent (defaultWatchlist ''w'' [item_a] None)"
    by (simp add: consistent_def defaultWatchlist_def initialState_def item_a_def)
  from reducer_consistent [of CLEAR_WATCHLIST_META state_ab] m consistent_state_ab f
  have c1: "items (reducer state_ab CLEAR_WATCHLIST_META) = items state_ab
   \<and> totalItems (reducer state_ab CLEAR_WATCHLIST_META) = Number 4
   \<and> totalUniqueItems (reducer state_ab CLEAR_WATCHLIST_META) = Number 2
   \<and> isEmpty (reducer state_ab CLEAR_WATCHLIST_META) = False
   \<and> consistent (reducer state_ab CLEAR_WATCHLIST_META)"
    by metis
  from reducer_consistent [of "ADD_ITEM item_b" "defaultWatchlist ''w'' [item_a] None"] n
  have c2: "consistent (reducer (defaultWatchlist ''w'' [item_a] None) (ADD_ITEM item_b))"
    by blast
  from m n d c1 c2 consistent_state_ab show ?thesis by blast
qed

text \<open>
  C1 as stated fails: a provider created with \<^verbatim>\<open>defaultItems = [{ id: "a", price: 1000,
  quantity: 1 }]\<close> starts with that item and the aggregates of the empty watchlist, and
  CLEAR_WATCHLIST_META keeps both.
\<close>

theorem reducer_consistent_counterexample:
  "\<not> consistent (reducer (defaultWatchlist ''w'' [item_a] None) CLEAR_WATCHLIST_META)"
  by (simp add: consistent_def defaultWatchlist_def initialState_def item_a_def)

section \<open>Identifiers stay distinct\<close>

lemma ids_metadata [simp]: "ids (st\<lparr> metadata := m \<rparr>) = ids st"
  by (simp add: ids_def)

lemma ids_initial [simp]: "ids initialState = []"
  by (simp add: ids_def initialState_def)









lemma find_None_ids: "find (\<lambda>i. item_id i = x) (items st) = None \<longleftrightarrow> x \<notin> set (ids st)"
  by (auto simp: find_None_iff ids_def)












section \<open>Adding an item that is already there\<close>











section \<open>Failures\<close>

text \<open>
  C4. \<open>addItem\<close> throws MissingIdentifier exactly when the id of the item is falsy (for a
  string: empty), and \<open>updateItemQuantity\<close> with a quantity above zero throws NotFound
  exactly when no item has the id; in both failures the state is the one before the call
  and nothing was dispatched and no callback called.
\<close>

theorem failures_leave_state:
  "(raised (addItem cb it qarg st) = Some MissingIdentifier \<longleftrightarrow> item_id it = [])
   \<and> (item_id it = [] \<longrightarrow>
        new_state (addItem cb it qarg st) = st \<and> fired (addItem cb it qarg st) = [])
   \<and> (0 < n \<longrightarrow>
        (raised (updateItemQuantity cb i (Number n) st) = Some NotFound \<longleftrightarrow> i \<notin> set (ids st))
        \<and> (i \<notin> set (ids st) \<longrightarrow>
             new_state (updateItemQuantity cb i (Number n) st) = st
             \<and> fired (updateItemQuantity cb i (Number n) st) = []))"
proof (intro conjI impI)
  show "raised (addItem cb it qarg st) = Some MissingIdentifier \<longleftrightarrow> item_id it = []"
    by (simp add: addItem_unfold Let_def split: option.splits)
next
  assume "item_id it = []"
  then show "new_state (addItem cb it qarg st) = st" by (simp add: addItem_unfold Let_def)
next
  assume "item_id it = []"
  then show "fired (addItem cb it qarg st) = []" by (simp add: addItem_unfold Let_def)
next
  assume "0 < n"
  then show "raised (updateItemQuantity cb i (Number n) st) = Some NotFound \<longleftrightarrow> i \<notin> set (ids st)"
    by (cases "find (\<lambda>item. item_id item = i) (items st)")
      (simp_all add: updateItemQuantity_unfold Let_def find_None_ids [symmetric])
next
  assume "0 < n" "i \<notin> set (ids st)"
  then have "find (\<lambda>item. item_id item = i) (items st) = None" by (simp add: find_None_ids)
  with \<open>0 < n\<close> show "new_state (updateItemQuantity cb i (Number n) st) = st"
    by (simp add: updateItemQuantity_unfold)
next
  assume "0 < n" "i \<notin> set (ids st)"
  then have "find (\<lambda>item. item_id item = i) (items st) = None" by (simp add: find_None_ids)
  with \<open>0 < n\<close> show "fired (updateItemQuantity cb i (Number n) st) = []"
    by (simp add: updateItemQuantity_unfold)
qed

text \<open>
  C4 at \<^verbatim>\<open>addItem({ id: "", price: 1000, quantity: 1 })\<close> and at
  \<^verbatim>\<open>updateItemQuantity("zz", 2)\<close> on the watchlist holding \<open>a\<close> and \<open>b\<close>.
\<close>

theorem failures_leave_state_witness:
  "item_id (item_a\<lparr> item_id := [] \<rparr>) = []
   \<and> raised (addItem all_callbacks (item_a\<lparr> item_id := [] \<rparr>) None state_ab) = Some MissingIdentifier
   \<and> new_state (addItem all_callbacks (item_a\<lparr> item_id := [] \<rparr>) None state_ab) = state_ab
   \<and> fired (addItem all_callbacks (item_a\<lparr> item_id := [] \<rparr>) None state_ab) = []
   \<and> (0::int) < 2
   \<and> ''zz'' \<notin> set (ids state_ab)
   \<and> raised (updateItemQuantity all_callbacks ''zz'' (Number 2) state_ab) = Some NotFound
   \<and> new_state (updateItemQuantity all_callbacks ''zz'' (Number 2) state_ab) = state_ab
   \<and> fired (updateItemQuantity all_callbacks ''zz'' (Number 2) state_ab) = []"
proof -
  have h: "''zz'' \<notin> set (ids state_ab)" by (simp add: eval_defs)
  from h failures_leave_state [where cb = all_callbacks and it = "item_a\<lparr> item_id := [] \<rparr>"
      and qarg = None and st = state_ab and n = 2 and i = "''zz''"]
  show ?thesis by simp
qed

section \<open>Replacing the items\<close>

lemma items_setItems:
  "items (new_state (setItems cb L st)) =
     calculateItemTotals (map (\<lambda>item. item\<lparr> quantity := Some (quantity_or_one (quantity item)) \<rparr>) L)"
  by (simp add: setItems_def items_generate)

lemma quantity_or_one_cases:
  "Some (quantity_or_one v) =
     (if v = None \<or> v = Some (Number 0) \<or> v = Some NaN then Some (Number 1) else v)"
proof (cases v)
  case None
  then show ?thesis by (simp add: quantity_or_one_def)
next
  case (Some n)
  then show ?thesis by (cases n) (simp_all add: quantity_or_one_def)
qed

text \<open>
  C5. After \<open>setItems L\<close>, from any state, the items are those of \<open>L\<close>, in order, with
  their ids, prices and other properties; an absent or falsy quantity (\<^verbatim>\<open>undefined\<close>,
  0, \<^verbatim>\<open>NaN\<close>) has become 1 and any other quantity is kept; \<open>itemTotal\<close> is the price
  times that quantity. Nothing of the state before remains among the items: after an
  earlier \<open>setItems L'\<close> the items are the same as without it.
\<close>

theorem setItems_replaces:
  "map item_id (items (new_state (setItems cb L st))) = map item_id L
   \<and> map price (items (new_state (setItems cb L st))) = map price L
   \<and> map extra (items (new_state (setItems cb L st))) = map extra L
   \<and> map quantity (items (new_state (setItems cb L st))) =
       map (\<lambda>it. if quantity it = None \<or> quantity it = Some (Number 0) \<or> quantity it = Some NaN
                 then Some (Number 1) else quantity it) L
   \<and> map itemTotal (items (new_state (setItems cb L st))) =
       map (\<lambda>it. Some (num_mul (price it) (quantity_or_one (quantity it)))) L
   \<and> items (new_state (setItems cb L (new_state (setItems cb L' st))))
       = items (new_state (setItems cb L st))"
proof (intro conjI)
  show "map quantity (items (new_state (setItems cb L st))) =
       map (\<lambda>it. if quantity it = None \<or> quantity it = Some (Number 0) \<or> quantity it = Some NaN
                 then Some (Number 1) else quantity it) L"
    by (simp add: items_setItems calculateItemTotals_def comp_def quantity_or_one_cases)
qed (simp_all add: items_setItems calculateItemTotals_def comp_def)

text \<open>
  C5 at \<open>setItems\<close> with \<open>a\<close> without a quantity, \<open>b\<close> with quantity 0 and \<open>b\<close> with
  quantity 3, on the watchlist holding \<open>a\<close> and \<open>b\<close>.
\<close>

theorem setItems_replaces_witness:
  "map item_id (items (new_state (setItems all_callbacks
       [item_a2, item_b\<lparr> quantity := Some (Number 0) \<rparr>, item_b] state_ab)))
     = [''a'', ''b'', ''b'']
   \<and> map quantity (items (new_state (setItems all_callbacks
       [item_a2, item_b\<lparr> quantity := Some (Number 0) \<rparr>, item_b] state_ab)))
     = [Some (Number 1), Some (Number 1), Some (Number 3)]"
  using setItems_replaces [of all_callbacks
      "[item_a2, item_b\<lparr> quantity := Some (Number 0) \<rparr>, item_b]" state_ab "[]"]
  by (simp add: item_a2_def item_b_def)

section \<open>Setting a quantity to zero or below\<close>





section \<open>Emptying the watchlist and clearing the metadata\<close>

text \<open>
  C7. \<open>emptyWatchlist\<close>, from any state, yields \<^verbatim>\<open>initialState\<close>: no items,
  \<open>totalItems\<close> and \<open>totalUniqueItems\<close> 0, \<open>isEmpty\<close> true, metadata the empty mapping
  and no id.
\<close>

theorem emptyWatchlist_canonical:
  "items (new_state (emptyWatchlist st)) = []
   \<and> totalItems (new_state (emptyWatchlist st)) = Number 0
   \<and> totalUniqueItems (new_state (emptyWatchlist st)) = Number 0
   \<and> isEmpty (new_state (emptyWatchlist st))
   \<and> metadata (new_state (emptyWatchlist st)) = Some Map.empty
   \<and> state_id (new_state (emptyWatchlist st)) = None
   \<and> new_state (emptyWatchlist st) = initialState"
  by (simp add: emptyWatchlist_def initialState_def)

text \<open>C8. CLEAR_WATCHLIST_META twice gives the state that CLEAR_WATCHLIST_META once gives.\<close>

theorem clear_metadata_idempotent:
  "reducer (reducer st CLEAR_WATCHLIST_META) CLEAR_WATCHLIST_META = reducer st CLEAR_WATCHLIST_META"
  by simp

section \<open>Removing an item that is not there\<close>

lemma totals_id:
  "\<forall>it \<in> set xs. itemTotal it = Some (num_mul (price it) (to_number (quantity it)))
   \<Longrightarrow> calculateItemTotals xs = xs"
  by (induction xs) (simp_all add: calculateItemTotals_def)

lemma generate_same_fields:
  assumes "consistent st"
  shows "items (generateWatchlistState st (items st)) = items st"
    and "totalItems (generateWatchlistState st (items st)) = totalItems st"
    and "totalUniqueItems (generateWatchlistState st (items st)) = totalUniqueItems st"
    and "isEmpty (generateWatchlistState st (items st)) = isEmpty st"
  using assms
  by (simp_all add: generateWatchlistState_def Let_def consistent_def totals_id
      calculateTotalItems_sum calculateUniqueItems_def)

lemma generate_same:
  assumes "consistent st" "metadata st \<noteq> None"
  shows "generateWatchlistState st (items st) = st"
proof -
  from assms(1) have "calculateItemTotals (items st) = items st"
    by (simp add: consistent_def totals_id)
  moreover from assms(1) have "calculateTotalItems (items st) = totalItems st"
    by (simp add: consistent_def calculateTotalItems_sum)
  moreover from assms(1) have "calculateUniqueItems (items st) = totalUniqueItems st"
    by (simp add: consistent_def calculateUniqueItems_def)
  moreover from assms(1) have "isEmpty st = (totalUniqueItems st = Number 0)"
    by (simp add: consistent_def)
  moreover from assms(2) have "spread_state initialState st = st"
    by (cases "state_id st") (auto simp: spread_state_def initialState_def)
  ultimately show ?thesis
    by (simp add: generateWatchlistState_def Let_def)
qed

text \<open>
  C9 (as amended). For a non-empty id \<open>x\<close> that no item has, \<open>removeItem x\<close> dispatches
  REMOVE_ITEM and then calls \<open>onItemRemove(x)\<close> (when supplied), and the items keep
  their ids, prices, quantities and other properties. When the derived fields of the
  state agreed with its items before the call, the items and all derived fields are
  unchanged (and the whole state is, when it has a \<open>metadata\<close> key); otherwise the call
  recomputes them.
\<close>

theorem removeItem_absent:
  assumes "i \<noteq> []" and "i \<notin> set (ids st)" and "onItemRemove cb"
  shows "fired (removeItem cb i st) = [Dispatched (REMOVE_ITEM i), OnItemRemove i]
    \<and> map item_id (items (new_state (removeItem cb i st))) = map item_id (items st)
    \<and> map price (items (new_state (removeItem cb i st))) = map price (items st)
    \<and> map quantity (items (new_state (removeItem cb i st))) = map quantity (items st)
    \<and> map extra (items (new_state (removeItem cb i st))) = map extra (items st)
    \<and> (consistent st \<longrightarrow>
         items (new_state (removeItem cb i st)) = items st
         \<and> totalItems (new_state (removeItem cb i st)) = totalItems st
         \<and> totalUniqueItems (new_state (removeItem cb i st)) = totalUniqueItems st
         \<and> isEmpty (new_state (removeItem cb i st)) = isEmpty st)
    \<and> (consistent st \<and> metadata st \<noteq> None \<longrightarrow> new_state (removeItem cb i st) = st)"
proof -
  from assms(2) have f: "filter (\<lambda>it. item_id it \<noteq> i) (items st) = items st"
    by (auto simp: ids_def filter_id_conv)
  from assms(1) have n: "new_state (removeItem cb i st) = generateWatchlistState st (items st)"
    by (simp add: removeItem_def f)
  from assms(1,3) have e: "fired (removeItem cb i st) = [Dispatched (REMOVE_ITEM i), OnItemRemove i]"
    by (simp add: removeItem_def)
  have m: "map item_id (calculateItemTotals (items st)) = map item_id (items st)"
    "map price (calculateItemTotals (items st)) = map price (items st)"
    "map quantity (calculateItemTotals (items st)) = map quantity (items st)"
    "map extra (calculateItemTotals (items st)) = map extra (items st)"
    by (simp_all add: calculateItemTotals_def comp_def)
  show ?thesis
    by (simp add: e n generate_same generate_same_fields m) (simp add: items_generate m)
qed

text \<open>C9 at \<^verbatim>\<open>removeItem("zz")\<close> on the watchlist holding \<open>a\<close> and \<open>b\<close>.\<close>

theorem removeItem_absent_witness:
  "''zz'' \<noteq> []
   \<and> ''zz'' \<notin> set (ids state_ab)
   \<and> onItemRemove all_callbacks
   \<and> consistent state_ab
   \<and> metadata state_ab \<noteq> None
   \<and> fired (removeItem all_callbacks ''zz'' state_ab)
       = [Dispatched (REMOVE_ITEM ''zz''), OnItemRemove ''zz'']
   \<and> new_state (removeItem all_callbacks ''zz'' state_ab) = state_ab"
proof -
  have h1: "''zz'' \<noteq> []" by simp
  have h2: "''zz'' \<notin> set (ids state_ab)" by (simp add: eval_defs)
  have h3: "onItemRemove all_callbacks" by (simp add: all_callbacks_def)
  have h4: "metadata state_ab \<noteq> None" by (simp add: state_ab_def)
  from removeItem_absent [OF h1 h2 h3] h2 h3 h4 consistent_state_ab
  show ?thesis by simp
qed

text \<open>
  C9 as stated fails: a provider created with \<^verbatim>\<open>defaultItems = [{ id: "a", price: 1000,
  quantity: 1 }]\<close> starts with \<open>isEmpty\<close> true, and \<^verbatim>\<open>removeItem("b")\<close> makes it false.
\<close>

theorem removeItem_absent_counterexample:
  "''b'' \<notin> set (ids (defaultWatchlist ''w'' [item_a] None))
   \<and> new_state (removeItem all_callbacks ''b'' (defaultWatchlist ''w'' [item_a] None))
       \<noteq> defaultWatchlist ''w'' [item_a] None
   \<and> isEmpty (defaultWatchlist ''w'' [item_a] None)
   \<and> isEmpty (new_state (removeItem all_callbacks ''b'' (defaultWatchlist ''w'' [item_a] None))) = False"
proof -
  have a: "''b'' \<notin> set (ids (defaultWatchlist ''w'' [item_a] None))"
    by (simp add: eval_defs)
  have b: "isEmpty (defaultWatchlist ''w'' [item_a] None)"
    by (simp add: eval_defs)
  have c: "isEmpty (new_state (removeItem all_callbacks ''b'' (defaultWatchlist ''w'' [item_a] None))) = False"
    by (simp add: removeItem_def eval_defs)
  from b c have "new_state (removeItem all_callbacks ''b'' (defaultWatchlist ''w'' [item_a] None))
       \<noteq> defaultWatchlist ''w'' [item_a] None" by auto
  with a b c show ?thesis by simp
qed

section \<open>What a second addItem overwrites\<close>



end
